theory Spec2Isabelle
  imports Main "HOL-Library.Char_ord" "HOL-Library.List_Lexorder" "HOL-Library.Sublist"
begin

section \<open>Data model (types.ts)\<close>

text \<open>
  Strings are lists of 8-bit characters, each read as one UTF-16 code unit below 256.
  On that domain the string operations below (\<open>sort\<close>, \<open>toLowerCase\<close>,
  \<open>JSON.stringify\<close>) are modelled exactly; strings with code units above 255
  are outside the model.
\<close>

text \<open>
  The values a payload field may hold (\<open>[key: string]: any\<close>): JSON data plus
  \<open>undefined\<close>. An object is the list of its own enumerable properties in
  enumeration order; a well-formed object has distinct keys. \<open>JNum\<close> stands for
  integer-valued numbers in the safe range (magnitude below \<open>2 ^ 53\<close>), which
  \<open>Number::toString\<close> prints in plain decimal.
\<close>

datatype json =
    JUndefined
  | JNull
  | JBool bool
  | JNum int
  | JStr string
  | JArr "json list"
  | JObj "(string \<times> json) list"

type_synonym Payload = "(string \<times> json) list"

record Signature =
  signerId :: string
  signature :: string
  signedAt :: string
  signedHash :: string

record SignedDocument =
  payload :: "Payload option"
  signatures :: "Signature list option"

record SignatureVerificationResult =
  signerId :: string
  isValid :: bool
  error :: "string option"
  hashChainValid :: bool
  signatureValid :: bool

record VerificationResult =
  isValid :: bool
  error :: "string option"
  signatureResults :: "SignatureVerificationResult list"

text \<open>
  \<open>SignerRegistry\<close> is an index signature from signer id to address string:
  \<open>signerRegistry[id]\<close> is a string, or \<open>undefined\<close> (\<open>None\<close>) when the id
  has no entry.
\<close>

type_synonym SignerRegistry = "string \<rightharpoonup> string"

section \<open>The external library (ethers)\<close>

text \<open>
  The four functions of the ethers library that crypto-utils.ts calls are parameters of
  the model. \<open>'b\<close> is the type of byte arrays. \<open>recoverAddress\<close> throws on a
  malformed signature: \<open>None\<close>.
\<close>

record 'b ethers =
  toUtf8Bytes :: "string \<Rightarrow> 'b"
  keccak256 :: "'b \<Rightarrow> string"
  hashMessage :: "'b \<Rightarrow> string"
  recoverAddress :: "string \<Rightarrow> string \<Rightarrow> string option"

section \<open>JavaScript built-ins used by the code\<close>

subsection \<open>\<open>String.prototype.toLowerCase\<close>\<close>

definition toLowerCase_char :: "char \<Rightarrow> char" where
  "toLowerCase_char c =
     (let n = (of_char c :: nat)
      in if (0x41 \<le> n \<and> n \<le> 0x5A) \<or> (0xC0 \<le> n \<and> n \<le> 0xDE \<and> n \<noteq> 0xD7)
         then char_of (n + 0x20) else c)"

definition toLowerCase :: "string \<Rightarrow> string" where
  "toLowerCase s = map toLowerCase_char s"

subsection \<open>\<open>Object.keys\<close> and \<open>JSON.stringify\<close> with an array replacer\<close>

definition Object_keys :: "(string \<times> json) list \<Rightarrow> string list" where
  "Object_keys obj = map fst obj"

definition hex_digit :: "nat \<Rightarrow> char" where
  "hex_digit n = ''0123456789abcdef'' ! n"

text \<open>The escape of one code unit in \<open>QuoteJSONString\<close>.\<close>

definition QuoteJSONChar :: "char \<Rightarrow> string" where
  "QuoteJSONChar c =
     (let n = (of_char c :: nat)
      in if n = 0x08 then [CHR 0x5C, CHR ''b'']
         else if n = 0x09 then [CHR 0x5C, CHR ''t'']
         else if n = 0x0A then [CHR 0x5C, CHR ''n'']
         else if n = 0x0C then [CHR 0x5C, CHR ''f'']
         else if n = 0x0D then [CHR 0x5C, CHR ''r'']
         else if n = 0x22 then [CHR 0x5C, CHR 0x22]
         else if n = 0x5C then [CHR 0x5C, CHR 0x5C]
         else if n < 0x20 then [CHR 0x5C, CHR ''u'', CHR ''0'', CHR ''0'',
                                 hex_digit (n div 16), hex_digit (n mod 16)]
         else [c])"

definition QuoteJSONString :: "string \<Rightarrow> string" where
  "QuoteJSONString s = [CHR 0x22] @ concat (map QuoteJSONChar s) @ [CHR 0x22]"

function nat_toString :: "nat \<Rightarrow> string" where
  "nat_toString n =
     (if n < 10 then [hex_digit n] else nat_toString (n div 10) @ [hex_digit (n mod 10)])"
  by pat_completeness auto
termination
  by (relation "measure id") auto

definition Number_toString :: "int \<Rightarrow> string" where
  "Number_toString i = (if i < 0 then ''-'' @ nat_toString (nat (- i)) else nat_toString (nat i))"

text \<open>Members separated by commas (no gap: \<open>JSON.stringify\<close> is called without \<open>space\<close>).\<close>

fun join_comma :: "string list \<Rightarrow> string" where
  "join_comma [] = []"
| "join_comma [x] = x"
| "join_comma (x # y # ys) = x @ '','' @ join_comma (y # ys)"

text \<open>
  \<open>SerializeJSONProperty\<close>, \<open>SerializeJSONObject\<close> and \<open>SerializeJSONArray\<close> of
  ECMA-262, with the state's \<open>PropertyList\<close> \<open>K\<close> set (the replacer is an array) and
  no replacer function, no \<open>toJSON\<close>, no indentation. \<open>K\<close> is used for every object
  of the value, at every depth: a member is written for each \<open>P\<close> of \<open>K\<close>, in the
  order of \<open>K\<close>, whose value \<open>Get(value, P)\<close> serializes to something other than
  \<open>undefined\<close>. \<open>None\<close> is the result \<open>undefined\<close>.
\<close>

function SerializeJSONProperty :: "string list \<Rightarrow> json \<Rightarrow> string option"
  and SerializeJSONObject :: "string list \<Rightarrow> (string \<times> json) list \<Rightarrow> string"
  and SerializeJSONArray :: "string list \<Rightarrow> json list \<Rightarrow> string"
where
  "SerializeJSONProperty K JUndefined = None"
| "SerializeJSONProperty K JNull = Some ''null''"
| "SerializeJSONProperty K (JBool b) = Some (if b then ''true'' else ''false'')"
| "SerializeJSONProperty K (JNum n) = Some (Number_toString n)"
| "SerializeJSONProperty K (JStr s) = Some (QuoteJSONString s)"
| "SerializeJSONProperty K (JArr xs) = Some (SerializeJSONArray K xs)"
| "SerializeJSONProperty K (JObj m) = Some (SerializeJSONObject K m)"
| "SerializeJSONObject K m =
     (let partial = concat (map (\<lambda>P.
            case map_of m P of
              None \<Rightarrow> []
            | Some v \<Rightarrow>
                (case SerializeJSONProperty K v of
                   None \<Rightarrow> []
                 | Some strP \<Rightarrow> [QuoteJSONString P @ '':'' @ strP])) K)
      in ''{'' @ join_comma partial @ ''}'')"
| "SerializeJSONArray K xs =
     (let partial = map (\<lambda>v.
            case SerializeJSONProperty K v of
              None \<Rightarrow> ''null''
            | Some strP \<Rightarrow> strP) xs
      in ''['' @ join_comma partial @ '']'')"
  by pat_completeness auto

text \<open>
  \<open>JSON.stringify(value, replacer)\<close> for an object \<open>value\<close> and an array
  \<open>replacer\<close> of strings: each item that is not yet an element of the
  \<open>PropertyList\<close> is appended to it.
\<close>

definition PropertyList :: "string list \<Rightarrow> string list" where
  "PropertyList replacer =
     foldl (\<lambda>K item. if item \<in> set K then K else K @ [item]) [] replacer"

definition JSON_stringify :: "(string \<times> json) list \<Rightarrow> string list \<Rightarrow> string" where
  "JSON_stringify obj replacer = SerializeJSONObject (PropertyList replacer) obj"

section \<open>crypto-utils.ts\<close>

definition createHash :: "'b ethers \<Rightarrow> string \<Rightarrow> string" where
  "createHash c data = keccak256 c (toUtf8Bytes c data)"

definition serializePayload :: "Payload \<Rightarrow> string" where
  "serializePayload p = JSON_stringify p (sort (Object_keys p))"

text \<open>A \<open>Signature\<close> as the object \<open>JSON.stringify\<close> sees, fields in declaration order.\<close>

definition Signature_object :: "Signature \<Rightarrow> (string \<times> json) list" where
  "Signature_object s =
     [(''signerId'', JStr (Signature.signerId s)),
      (''signature'', JStr (signature s)),
      (''signedAt'', JStr (signedAt s)),
      (''signedHash'', JStr (signedHash s))]"

definition serializeSignature :: "Signature \<Rightarrow> string" where
  "serializeSignature s =
     (let sortedKeys = sort (Object_keys (Signature_object s))
      in JSON_stringify (Signature_object s) sortedKeys)"

definition calculateExpectedHash :: "'b ethers \<Rightarrow> Payload \<Rightarrow> Signature list \<Rightarrow> string" where
  "calculateExpectedHash c p previousSignatures =
     (let dataToHash = foldl (\<lambda>dataToHash sig. dataToHash @ serializeSignature sig)
                             (serializePayload p) previousSignatures
      in createHash c dataToHash)"

text \<open>The \<open>try\<close> block returns the comparison; the \<open>catch\<close> returns \<open>false\<close>.\<close>

definition verifySignature :: "'b ethers \<Rightarrow> string \<Rightarrow> string \<Rightarrow> string \<Rightarrow> bool" where
  "verifySignature c message sig expectedAddress =
     (let messageBytes = toUtf8Bytes c message;
          messageHash = hashMessage c messageBytes
      in case recoverAddress c messageHash sig of
           None \<Rightarrow> False
         | Some recoveredAddress \<Rightarrow> toLowerCase recoveredAddress = toLowerCase expectedAddress)"

section \<open>traversal.ts\<close>

text \<open>JavaScript truthiness of an optional string: \<open>undefined\<close> and \<open>""\<close> are falsy.\<close>

definition falsy :: "string option \<Rightarrow> bool" where
  "falsy v = (case v of None \<Rightarrow> True | Some s \<Rightarrow> s = [])"

definition verifySignatureAtIndex ::
  "'b ethers \<Rightarrow> Payload \<Rightarrow> Signature \<Rightarrow> Signature list \<Rightarrow> SignerRegistry
    \<Rightarrow> SignatureVerificationResult" where
  "verifySignatureAtIndex c p sig previousSignatures signerRegistry =
     (let result = \<lparr>SignatureVerificationResult.signerId = Signature.signerId sig,
                    isValid = True, error = None,
                    hashChainValid = False, signatureValid = False\<rparr>;
          signerAddress = signerRegistry (Signature.signerId sig)
      in if falsy signerAddress then
           result\<lparr>SignatureVerificationResult.isValid := False,
                  SignatureVerificationResult.error :=
                    Some (''Signer '' @ Signature.signerId sig @ '' not found in registry'')\<rparr>
         else
           let expectedHash = calculateExpectedHash c p previousSignatures;
               hashChainValid = (expectedHash = signedHash sig);
               result = result\<lparr>hashChainValid := hashChainValid\<rparr>
           in if \<not> hashChainValid then
                result\<lparr>SignatureVerificationResult.isValid := False,
                       SignatureVerificationResult.error :=
                         Some (''Hash chain broken: expected '' @ expectedHash
                               @ '', got '' @ signedHash sig)\<rparr>
              else
                let signatureValid =
                      verifySignature c (signedHash sig) (signature sig)
                        (case signerAddress of Some a \<Rightarrow> a | None \<Rightarrow> []);
                    result = result\<lparr>signatureValid := signatureValid\<rparr>
                in if \<not> signatureValid then
                     result\<lparr>SignatureVerificationResult.isValid := False,
                            SignatureVerificationResult.error :=
                              Some (''Invalid cryptographic signature for ''
                                    @ Signature.signerId sig)\<rparr>
                   else result\<lparr>SignatureVerificationResult.isValid := True\<rparr>)"

text \<open>
  The loop \<open>for (let i = signatures.length - 1; i >= 0; i--)\<close>: the counter of
  \<open>traverse_loop\<close> is \<open>i + 1\<close>, so \<open>Suc i\<close> runs the body at \<open>i\<close> and \<open>0\<close>
  leaves the loop. \<open>unshift\<close> puts the new result at the front.
\<close>

fun traverse_loop ::
  "'b ethers \<Rightarrow> Payload \<Rightarrow> Signature list \<Rightarrow> SignerRegistry \<Rightarrow> nat
    \<Rightarrow> VerificationResult \<Rightarrow> VerificationResult" where
  "traverse_loop c p sigs signerRegistry 0 result = result"
| "traverse_loop c p sigs signerRegistry (Suc i) result =
     (let currentSignature = sigs ! i;
          previousSignatures = take i sigs;
          sigResult = verifySignatureAtIndex c p currentSignature previousSignatures
                        signerRegistry;
          result = result\<lparr>signatureResults := sigResult # signatureResults result\<rparr>;
          result =
            (if \<not> SignatureVerificationResult.isValid sigResult then
               let result = result\<lparr>VerificationResult.isValid := False\<rparr>
               in if falsy (VerificationResult.error result) then
                    result\<lparr>VerificationResult.error :=
                      Some (''Signature chain broken at signer: ''
                            @ Signature.signerId currentSignature)\<rparr>
                  else result
             else result)
      in traverse_loop c p sigs signerRegistry i result)"

definition no_signatures :: VerificationResult where
  "no_signatures =
     \<lparr>VerificationResult.isValid = False,
      error = Some ''Document has no signatures'',
      signatureResults = []\<rparr>"

definition no_payload :: VerificationResult where
  "no_payload =
     \<lparr>VerificationResult.isValid = False,
      error = Some ''Document has no payload'',
      signatureResults = []\<rparr>"

text \<open>
  \<open>document\<close> may be \<open>null\<close>/\<open>undefined\<close> (\<open>None\<close>), and so may its
  \<open>signatures\<close> and its \<open>payload\<close>. An array and an object are truthy, also when
  empty.
\<close>

definition traverse ::
  "'b ethers \<Rightarrow> SignedDocument option \<Rightarrow> SignerRegistry \<Rightarrow> VerificationResult" where
  "traverse c document signerRegistry =
     (let result = \<lparr>VerificationResult.isValid = True, error = None, signatureResults = []\<rparr>
      in case document of
           None \<Rightarrow> no_signatures
         | Some d \<Rightarrow>
             (case signatures d of
                None \<Rightarrow> no_signatures
              | Some sigs \<Rightarrow>
                  if length sigs = 0 then no_signatures
                  else
                    (case payload d of
                       None \<Rightarrow> no_payload
                     | Some p \<Rightarrow> traverse_loop c p sigs signerRegistry (length sigs) result)))"

section \<open>Structural preconditions, as the specification names them\<close>

definition has_signatures :: "SignedDocument option \<Rightarrow> bool" where
  "has_signatures document =
     (case document of
        None \<Rightarrow> False
      | Some d \<Rightarrow> (case signatures d of None \<Rightarrow> False | Some sigs \<Rightarrow> sigs \<noteq> []))"

definition has_payload :: "SignedDocument option \<Rightarrow> bool" where
  "has_payload document =
     (case document of None \<Rightarrow> False | Some d \<Rightarrow> payload d \<noteq> None)"

section \<open>Concrete primitives and documents for worked examples\<close>

text \<open>
  A stand-in for the ethers library on which the definitions can be evaluated: byte
  arrays are strings, the hash is the identity (so it never collides), and the
  signature of address \<open>a\<close> over a message hash \<open>h\<close> is the string \<open>a @ h\<close>.
  \<open>toy_recoverAddress\<close> fails on a signature that does not end in the message hash.
\<close>

definition toy_recoverAddress :: "string \<Rightarrow> string \<Rightarrow> string option" where
  "toy_recoverAddress h sig =
     (if length h \<le> length sig \<and> drop (length sig - length h) sig = h
      then Some (take (length sig - length h) sig) else None)"

definition toy_ethers :: "string ethers" where
  "toy_ethers =
     \<lparr>toUtf8Bytes = (\<lambda>s. s), keccak256 = (\<lambda>b. b), hashMessage = (\<lambda>b. b),
      recoverAddress = toy_recoverAddress\<rparr>"

definition toy_registry :: SignerRegistry where
  "toy_registry = [''alice'' \<mapsto> ''0xAA'', ''bob'' \<mapsto> ''0xbb'', ''eve'' \<mapsto> []]"

definition toy_payload :: Payload where
  "toy_payload = [(''documentId'', JStr ''d''), (''content'', JStr ''c'')]"

text \<open>
  A chain signed as the repository's test generator signs it: each signer signs
  \<open>calculateExpectedHash\<close> of the payload and the signatures before.
\<close>

definition toy_sig0 :: Signature where
  "toy_sig0 =
     \<lparr>Signature.signerId = ''alice'',
      signature = ''0xAa'' @ calculateExpectedHash toy_ethers toy_payload [],
      signedAt = ''t0'',
      signedHash = calculateExpectedHash toy_ethers toy_payload []\<rparr>"

definition toy_sig1 :: Signature where
  "toy_sig1 =
     \<lparr>Signature.signerId = ''bob'',
      signature = ''0xBb'' @ calculateExpectedHash toy_ethers toy_payload [toy_sig0],
      signedAt = ''t1'',
      signedHash = calculateExpectedHash toy_ethers toy_payload [toy_sig0]\<rparr>"

definition toy_document :: "SignedDocument option" where
  "toy_document = Some \<lparr>payload = Some toy_payload, signatures = Some [toy_sig0, toy_sig1]\<rparr>"

text \<open>The same chain over a payload whose content was changed after signing.\<close>

definition toy_payload_mutated :: Payload where
  "toy_payload_mutated = [(''documentId'', JStr ''d''), (''content'', JStr ''x'')]"

definition toy_document_mutated :: "SignedDocument option" where
  "toy_document_mutated =
     Some \<lparr>payload = Some toy_payload_mutated, signatures = Some [toy_sig0, toy_sig1]\<rparr>"

text \<open>The chain with the signature bytes of the first record replaced.\<close>

definition toy_document_corrupted :: "SignedDocument option" where
  "toy_document_corrupted =
     Some \<lparr>payload = Some toy_payload,
           signatures = Some [toy_sig0\<lparr>signature := ''0xZz''\<rparr>, toy_sig1]\<rparr>"

text \<open>A document with a signature and no payload (\<open>payload: null\<close>).\<close>

definition toy_document_no_payload :: "SignedDocument option" where
  "toy_document_no_payload = Some \<lparr>payload = None, signatures = Some [toy_sig0]\<rparr>"

text \<open>A payload with an object-valued field, as in the repository's serializer test.\<close>

definition payload_with_author :: "string \<Rightarrow> Payload" where
  "payload_with_author a =
     [(''documentId'', JStr ''test-123''), (''content'', JStr ''test content''),
      (''metadata'', JObj [(''author'', JStr a)])]"

section \<open>Termination of the serializer\<close>

lemma map_of_size_less:
  "map_of m P = Some v \<Longrightarrow> size v < Suc (size_list (size_prod (\<lambda>_. 0) size) m)"
  by (induction m) (auto split: if_splits)

lemma member_size_le: "x \<in> set xs \<Longrightarrow> size x \<le> size_list size xs"
  by (induction xs) auto

termination SerializeJSONProperty
  by (relation "measure (\<lambda>x. case x of
          Inl (K, v) \<Rightarrow> 2 * size v
        | Inr (Inl (K, m)) \<Rightarrow> 2 * size_list (size_prod (\<lambda>_. 0) size) m + 1
        | Inr (Inr (K, xs)) \<Rightarrow> 2 * size_list size xs + 1)")
     (auto dest: map_of_size_less member_size_le)

section \<open>The traversal loop\<close>

lemma traverse_loop_signatureResults:
  "signatureResults (traverse_loop c p sigs reg k r) =
     map (\<lambda>i. verifySignatureAtIndex c p (sigs ! i) (take i sigs) reg) [0..<k]
     @ signatureResults r"
  by (induction k arbitrary: r) (simp_all add: Let_def)

lemma traverse_loop_isValid:
  "VerificationResult.isValid (traverse_loop c p sigs reg k r) =
     (VerificationResult.isValid r \<and>
      (\<forall>i<k. SignatureVerificationResult.isValid
                 (verifySignatureAtIndex c p (sigs ! i) (take i sigs) reg)))"
  by (induction k arbitrary: r) (auto simp: Let_def less_Suc_eq)

text \<open>The latch: an error that is set stays.\<close>

lemma traverse_loop_error_latched:
  "\<not> falsy (VerificationResult.error r) \<Longrightarrow>
   VerificationResult.error (traverse_loop c p sigs reg k r) = VerificationResult.error r"
  by (induction k arbitrary: r) (simp_all add: Let_def)

lemma traverse_loop_error_first_failure:
  assumes "falsy (VerificationResult.error r)"
    and "j < k"
    and "\<not> SignatureVerificationResult.isValid
             (verifySignatureAtIndex c p (sigs ! j) (take j sigs) reg)"
    and "\<forall>i. j < i \<and> i < k \<longrightarrow> SignatureVerificationResult.isValid
             (verifySignatureAtIndex c p (sigs ! i) (take i sigs) reg)"
  shows "VerificationResult.error (traverse_loop c p sigs reg k r) =
           Some (''Signature chain broken at signer: '' @ Signature.signerId (sigs ! j))"
  using assms
proof (induction k arbitrary: r)
  case 0
  then show ?case by simp
next
  case (Suc k)
  show ?case
  proof (cases "j = k")
    case True
    with Suc.prems show ?thesis
      by (simp add: Let_def traverse_loop_error_latched falsy_def)
  next
    case False
    with Suc.prems have jk: "j < k" by simp
    from Suc.prems jk have vk: "SignatureVerificationResult.isValid
             (verifySignatureAtIndex c p (sigs ! k) (take k sigs) reg)" by simp
    have "VerificationResult.error (traverse_loop c p sigs reg (Suc k) r) =
          VerificationResult.error (traverse_loop c p sigs reg k
             (r\<lparr>signatureResults := verifySignatureAtIndex c p (sigs ! k) (take k sigs) reg
                     # signatureResults r\<rparr>))"
      using vk by (simp add: Let_def)
    also have "\<dots> = Some (''Signature chain broken at signer: ''
                          @ Signature.signerId (sigs ! j))"
      using Suc.prems jk by (intro Suc.IH) simp_all
    finally show ?thesis .
  qed
qed

lemma traverse_loop_error_present:
  "(VerificationResult.isValid r \<longleftrightarrow> VerificationResult.error r = None) \<Longrightarrow>
   (VerificationResult.isValid (traverse_loop c p sigs reg k r) \<longleftrightarrow>
    VerificationResult.error (traverse_loop c p sigs reg k r) = None)"
proof (induction k arbitrary: r)
  case 0
  then show ?case by simp
next
  case (Suc k)
  show ?case
    apply (simp add: Let_def)
    apply (intro conjI impI Suc.IH)
    using Suc.prems apply (simp_all add: falsy_def split: option.splits)
    done
qed

section \<open>A document that passes the structural checks\<close>

lemma traverse_present:
  assumes "document = Some d" "signatures d = Some sigs" "sigs \<noteq> []" "payload d = Some p"
  shows "traverse c document reg =
           traverse_loop c p sigs reg (length sigs)
             \<lparr>VerificationResult.isValid = True, error = None, signatureResults = []\<rparr>"
  using assms by (simp add: traverse_def)

lemma traverse_present_results:
  assumes "document = Some d" "signatures d = Some sigs" "sigs \<noteq> []" "payload d = Some p"
  shows "signatureResults (traverse c document reg) =
           map (\<lambda>i. verifySignatureAtIndex c p (sigs ! i) (take i sigs) reg) [0..<length sigs]"
  by (simp add: traverse_present [OF assms] traverse_loop_signatureResults)

lemma traverse_present_isValid:
  assumes "document = Some d" "signatures d = Some sigs" "sigs \<noteq> []" "payload d = Some p"
  shows "VerificationResult.isValid (traverse c document reg) =
           (\<forall>i<length sigs. SignatureVerificationResult.isValid
                 (verifySignatureAtIndex c p (sigs ! i) (take i sigs) reg))"
  by (simp add: traverse_present [OF assms] traverse_loop_isValid)

lemma traverse_present_error:
  assumes "document = Some d" "signatures d = Some sigs" "sigs \<noteq> []" "payload d = Some p"
    and "j < length sigs"
    and "\<not> SignatureVerificationResult.isValid
             (verifySignatureAtIndex c p (sigs ! j) (take j sigs) reg)"
    and "\<forall>i. j < i \<and> i < length sigs \<longrightarrow> SignatureVerificationResult.isValid
             (verifySignatureAtIndex c p (sigs ! i) (take i sigs) reg)"
  shows "VerificationResult.error (traverse c document reg) =
           Some (''Signature chain broken at signer: '' @ Signature.signerId (sigs ! j))"
  using assms(5-7)
  by (simp add: traverse_present [OF assms(1-4)] traverse_loop_error_first_failure falsy_def)

lemma traverse_absent:
  "\<not> has_signatures document \<Longrightarrow> traverse c document reg = no_signatures"
  "has_signatures document \<Longrightarrow> \<not> has_payload document \<Longrightarrow>
     traverse c document reg = no_payload"
  by (auto simp: traverse_def has_signatures_def has_payload_def split: option.splits)

lemma present_cases:
  assumes "has_signatures document" "has_payload document"
  obtains d sigs p where "document = Some d" "signatures d = Some sigs" "sigs \<noteq> []"
    "payload d = Some p"
  using assms by (auto simp: has_signatures_def has_payload_def split: option.splits)

section \<open>One entry of the chain\<close>

lemma verifySignatureAtIndex_signerId:
  "SignatureVerificationResult.signerId (verifySignatureAtIndex c p sig prev reg) =
     Signature.signerId sig"
  by (simp add: verifySignatureAtIndex_def Let_def)

lemma verifySignatureAtIndex_hashChainValid:
  "hashChainValid (verifySignatureAtIndex c p sig prev reg) =
     (\<not> falsy (reg (Signature.signerId sig)) \<and>
      calculateExpectedHash c p prev = signedHash sig)"
  by (simp add: verifySignatureAtIndex_def Let_def)

lemma verifySignatureAtIndex_signatureValid:
  "signatureValid (verifySignatureAtIndex c p sig prev reg) =
     (\<not> falsy (reg (Signature.signerId sig)) \<and>
      calculateExpectedHash c p prev = signedHash sig \<and>
      verifySignature c (signedHash sig) (signature sig)
        (case reg (Signature.signerId sig) of Some a \<Rightarrow> a | None \<Rightarrow> []))"
  by (simp add: verifySignatureAtIndex_def Let_def)

lemma verifySignatureAtIndex_isValid:
  "SignatureVerificationResult.isValid (verifySignatureAtIndex c p sig prev reg) =
     (\<not> falsy (reg (Signature.signerId sig)) \<and>
      calculateExpectedHash c p prev = signedHash sig \<and>
      verifySignature c (signedHash sig) (signature sig)
        (case reg (Signature.signerId sig) of Some a \<Rightarrow> a | None \<Rightarrow> []))"
  by (simp add: verifySignatureAtIndex_def Let_def)

section \<open>Documents that verify\<close>

lemma valid_document_entries:
  assumes "VerificationResult.isValid
             (traverse c (Some \<lparr>payload = Some p, signatures = Some sigs\<rparr>) reg)"
  shows "sigs \<noteq> []"
    and "\<forall>i<length sigs.
           \<not> falsy (reg (Signature.signerId (sigs ! i))) \<and>
           calculateExpectedHash c p (take i sigs) = signedHash (sigs ! i) \<and>
           verifySignature c (signedHash (sigs ! i)) (signature (sigs ! i))
             (case reg (Signature.signerId (sigs ! i)) of Some a \<Rightarrow> a | None \<Rightarrow> [])"
proof -
  show ne: "sigs \<noteq> []"
  proof
    assume "sigs = []"
    then have "traverse c (Some \<lparr>payload = Some p, signatures = Some sigs\<rparr>) reg
                 = no_signatures"
      by (simp add: traverse_def)
    with assms show False by (simp add: no_signatures_def)
  qed
  have "\<forall>i<length sigs. SignatureVerificationResult.isValid
           (verifySignatureAtIndex c p (sigs ! i) (take i sigs) reg)"
    using assms ne
    by (simp add: traverse_present_isValid
        [of "Some \<lparr>payload = Some p, signatures = Some sigs\<rparr>" _ sigs p])
  then show "\<forall>i<length sigs.
           \<not> falsy (reg (Signature.signerId (sigs ! i))) \<and>
           calculateExpectedHash c p (take i sigs) = signedHash (sigs ! i) \<and>
           verifySignature c (signedHash (sigs ! i)) (signature (sigs ! i))
             (case reg (Signature.signerId (sigs ! i)) of Some a \<Rightarrow> a | None \<Rightarrow> [])"
    by (simp add: verifySignatureAtIndex_isValid)
qed

section \<open>The canonical serialization\<close>

text \<open>
  The serialization reads the payload through its sorted key list, so the order in which
  the fields were inserted does not matter.
\<close>

lemma serializePayload_field_order:
  assumes "distinct (map fst p)" and "distinct (map fst q)" and "map_of p = map_of q"
  shows "serializePayload p = serializePayload q"
proof -
  have "set (map fst p) = set (map fst q)"
    using assms(3) by (metis dom_map_of_conv_image_fst set_map)
  then have "sort (map fst p) = sort (map fst q)"
    using assms(1,2) by (intro sorted_distinct_set_unique) simp_all
  then show ?thesis
    by (simp add: serializePayload_def JSON_stringify_def Object_keys_def assms(3))
qed

lemma calculateExpectedHash_field_order:
  assumes "distinct (map fst p)" and "distinct (map fst q)" and "map_of p = map_of q"
  shows "calculateExpectedHash c p prev = calculateExpectedHash c q prev"
  by (simp add: calculateExpectedHash_def serializePayload_field_order [OF assms])

text \<open>
  The hashed data is the payload's serialization followed by the serializations of the
  earlier signatures, so a hash that does not collide tells apart any two payloads whose
  serializations differ, at every chain position.
\<close>

lemma dataToHash_append:
  "foldl (\<lambda>dataToHash sig. dataToHash @ serializeSignature sig) x prev =
     x @ concat (map serializeSignature prev)"
  by (induction prev arbitrary: x) simp_all

lemma calculateExpectedHash_payload_change:
  assumes "inj (createHash c)" and "serializePayload p' \<noteq> serializePayload p"
  shows "calculateExpectedHash c p' prev \<noteq> calculateExpectedHash c p prev"
  using assms by (simp add: calculateExpectedHash_def dataToHash_append inj_eq)

section \<open>Worked examples\<close>

lemma toy_document_valid:
  "VerificationResult.isValid (traverse toy_ethers toy_document toy_registry)"
  by code_simp

lemma toy_signer_ids:
  "Signature.signerId toy_sig0 = ''alice''" "Signature.signerId toy_sig1 = ''bob''"
  by (simp_all add: toy_sig0_def toy_sig1_def)

lemma toy_mutation_changes_hashes:
  "calculateExpectedHash toy_ethers toy_payload_mutated []
     \<noteq> calculateExpectedHash toy_ethers toy_payload []"
  "calculateExpectedHash toy_ethers toy_payload_mutated [toy_sig0]
     \<noteq> calculateExpectedHash toy_ethers toy_payload [toy_sig0]"
  by code_simp+

lemma toy_corruption_fails:
  "\<not> verifySignature toy_ethers (signedHash toy_sig0) ''0xZz'' ''0xAA''"
  "recoverAddress toy_ethers (hashMessage toy_ethers (toUtf8Bytes toy_ethers
       (signedHash toy_sig0))) ''0xZz'' = None"
  by code_simp+

lemma toy_corruption_changes_hash:
  "calculateExpectedHash toy_ethers toy_payload [toy_sig0\<lparr>signature := ''0xZz''\<rparr>]
     \<noteq> calculateExpectedHash toy_ethers toy_payload [toy_sig0]"
  by code_simp

lemma toy_registry_lookups:
  "toy_registry ''alice'' = Some ''0xAA''" "toy_registry ''bob'' = Some ''0xbb''"
  "toy_registry ''eve'' = Some []"
  by (simp_all add: toy_registry_def)

lemma toy_mutated_results:
  "\<not> SignatureVerificationResult.isValid
       (signatureResults (traverse toy_ethers toy_document_mutated toy_registry) ! 1)"
  "\<not> hashChainValid
       (signatureResults (traverse toy_ethers toy_document_mutated toy_registry) ! 0)"
  "VerificationResult.error (traverse toy_ethers toy_document_mutated toy_registry) =
     Some ''Signature chain broken at signer: bob''"
  by code_simp+

lemma toy_corrupted_results:
  "hashChainValid (signatureResults (traverse toy_ethers toy_document toy_registry) ! 1)"
  "\<not> hashChainValid
       (signatureResults (traverse toy_ethers toy_document_corrupted toy_registry) ! 1)"
  by code_simp+

lemma toy_no_payload_result:
  "\<not> VerificationResult.isValid (traverse toy_ethers toy_document_no_payload toy_registry)"
  "signatureResults (traverse toy_ethers toy_document_no_payload toy_registry) = []"
  by code_simp+

section \<open>Structural failures\<close>

text \<open>
  C8. \<open>traverse\<close> returns a structural failure with an empty result list exactly when
  a structural precondition fails. A document that is absent, or whose signature list is
  absent or empty, gives \<open>isValid = false\<close> with the error "Document has no
  signatures"; this check comes first, so it also decides a document that lacks both.
  Otherwise a document without payload gives \<open>isValid = false\<close> with "Document has no
  payload". Both results are the same for every library and registry: nothing is
  traversed and no primitive is called. Every other document has a non-empty result
  list.
\<close>

theorem structural_failures:
  "(\<not> has_signatures document \<longrightarrow>
      traverse c document signerRegistry =
        \<lparr>VerificationResult.isValid = False, error = Some ''Document has no signatures'',
         signatureResults = []\<rparr>) \<and>
   (has_signatures document \<and> \<not> has_payload document \<longrightarrow>
      traverse c document signerRegistry =
        \<lparr>VerificationResult.isValid = False, error = Some ''Document has no payload'',
         signatureResults = []\<rparr>) \<and>
   (has_signatures document \<and> has_payload document \<longrightarrow>
      signatureResults (traverse c document signerRegistry) \<noteq> [])"
proof (intro conjI impI)
  assume "\<not> has_signatures document"
  then show "traverse c document signerRegistry =
        \<lparr>VerificationResult.isValid = False, error = Some ''Document has no signatures'',
         signatureResults = []\<rparr>"
    by (simp add: traverse_absent no_signatures_def)
next
  assume "has_signatures document \<and> \<not> has_payload document"
  then show "traverse c document signerRegistry =
        \<lparr>VerificationResult.isValid = False, error = Some ''Document has no payload'',
         signatureResults = []\<rparr>"
    by (simp add: traverse_absent no_payload_def)
next
  assume "has_signatures document \<and> has_payload document"
  then obtain d sigs p where *: "document = Some d" "signatures d = Some sigs" "sigs \<noteq> []"
    "payload d = Some p"
    by (auto elim: present_cases)
  show "signatureResults (traverse c document signerRegistry) \<noteq> []"
    using *(3) by (simp add: traverse_present_results [OF *])
qed

theorem structural_failures_witness:
  "\<not> has_signatures None \<and>
   traverse toy_ethers None toy_registry =
     \<lparr>VerificationResult.isValid = False, error = Some ''Document has no signatures'',
      signatureResults = []\<rparr> \<and>
   has_signatures toy_document_no_payload \<and> \<not> has_payload toy_document_no_payload \<and>
   traverse toy_ethers toy_document_no_payload toy_registry =
     \<lparr>VerificationResult.isValid = False, error = Some ''Document has no payload'',
      signatureResults = []\<rparr> \<and>
   has_signatures toy_document \<and> has_payload toy_document \<and>
   signatureResults (traverse toy_ethers toy_document toy_registry) \<noteq> []"
proof -
  have a: "\<not> has_signatures None" by (simp add: has_signatures_def)
  have b: "has_signatures toy_document_no_payload \<and> \<not> has_payload toy_document_no_payload"
    by (simp add: has_signatures_def has_payload_def toy_document_no_payload_def)
  have c: "has_signatures toy_document \<and> has_payload toy_document"
    by (simp add: has_signatures_def has_payload_def toy_document_def)
  show ?thesis
    using a b c structural_failures [of None toy_ethers toy_registry]
      structural_failures [of toy_document_no_payload toy_ethers toy_registry]
      structural_failures [of toy_document toy_ethers toy_registry]
    by blast
qed

section \<open>The result list\<close>

text \<open>
  C2. For a document with a payload and at least one signature, the result list has
  exactly one entry per signature, in chronological order: entry \<open>i\<close> is the result of
  checking \<open>signatures[i]\<close> against the signatures before it, and carries its signer id.
  This holds whatever the checks find: no failure ends the traversal.
\<close>

theorem traverse_results_chronological:
  assumes "document = Some d" and "signatures d = Some sigs" and "sigs \<noteq> []"
    and "payload d = Some p"
  shows "length (signatureResults (traverse c document signerRegistry)) = length sigs \<and>
         (\<forall>i<length sigs.
            signatureResults (traverse c document signerRegistry) ! i =
              verifySignatureAtIndex c p (sigs ! i) (take i sigs) signerRegistry \<and>
            SignatureVerificationResult.signerId
              (signatureResults (traverse c document signerRegistry) ! i) =
              Signature.signerId (sigs ! i))"
  by (simp add: traverse_present_results [OF assms] verifySignatureAtIndex_signerId)

theorem traverse_results_chronological_witness:
  "length (signatureResults (traverse toy_ethers toy_document toy_registry)) = 2 \<and>
   signatureResults (traverse toy_ethers toy_document toy_registry) ! 0 =
     verifySignatureAtIndex toy_ethers toy_payload toy_sig0 [] toy_registry \<and>
   signatureResults (traverse toy_ethers toy_document toy_registry) ! 1 =
     verifySignatureAtIndex toy_ethers toy_payload toy_sig1 [toy_sig0] toy_registry \<and>
   SignatureVerificationResult.signerId
     (signatureResults (traverse toy_ethers toy_document toy_registry) ! 0) = ''alice'' \<and>
   SignatureVerificationResult.signerId
     (signatureResults (traverse toy_ethers toy_document toy_registry) ! 1) = ''bob''"
proof -
  have d: "toy_document = Some \<lparr>payload = Some toy_payload,
             signatures = Some [toy_sig0, toy_sig1]\<rparr>"
    by (simp add: toy_document_def)
  have "length (signatureResults (traverse toy_ethers toy_document toy_registry))
          = length [toy_sig0, toy_sig1] \<and>
        (\<forall>i<length [toy_sig0, toy_sig1].
           signatureResults (traverse toy_ethers toy_document toy_registry) ! i =
             verifySignatureAtIndex toy_ethers toy_payload ([toy_sig0, toy_sig1] ! i)
               (take i [toy_sig0, toy_sig1]) toy_registry \<and>
           SignatureVerificationResult.signerId
             (signatureResults (traverse toy_ethers toy_document toy_registry) ! i) =
             Signature.signerId ([toy_sig0, toy_sig1] ! i))"
    by (rule traverse_results_chronological [OF d]) simp_all
  then show ?thesis
    by (auto simp: All_less_Suc numeral_2_eq_2 toy_signer_ids)
qed

section \<open>The top-level error\<close>

text \<open>
  C3, amended. When the signature at index \<open>j\<close> is invalid and every signature
  after it is valid (so \<open>j\<close> is the first failure the reverse traversal meets, the
  invalid signature of highest index), the top-level error is exactly the code's message
  "Signature chain broken at signer: " (with a capital S) followed by the signer id of
  \<open>signatures[j]\<close>, whatever the results at the indices below \<open>j\<close>: failures
  found later in the traversal do not overwrite it.
\<close>

theorem top_level_error_names_last_invalid:
  assumes "document = Some d" and "signatures d = Some sigs" and "payload d = Some p"
    and "j < length sigs"
    and "\<not> SignatureVerificationResult.isValid
             (signatureResults (traverse c document signerRegistry) ! j)"
    and "\<forall>i. j < i \<and> i < length sigs \<longrightarrow>
             SignatureVerificationResult.isValid
               (signatureResults (traverse c document signerRegistry) ! i)"
  shows "VerificationResult.error (traverse c document signerRegistry) =
           Some (''Signature chain broken at signer: '' @ Signature.signerId (sigs ! j))"
proof -
  from assms(4) have ne: "sigs \<noteq> []" by auto
  note res = traverse_present_results [OF assms(1,2) ne assms(3), of c signerRegistry]
  show ?thesis
  proof (rule traverse_present_error [OF assms(1,2) ne assms(3,4)])
    show "\<not> SignatureVerificationResult.isValid
             (verifySignatureAtIndex c p (sigs ! j) (take j sigs) signerRegistry)"
      using assms(4,5) by (simp add: res)
    show "\<forall>i. j < i \<and> i < length sigs \<longrightarrow> SignatureVerificationResult.isValid
             (verifySignatureAtIndex c p (sigs ! i) (take i sigs) signerRegistry)"
      using assms(6) by (simp add: res)
  qed
qed

theorem top_level_error_names_last_invalid_witness:
  "\<not> SignatureVerificationResult.isValid
       (signatureResults (traverse toy_ethers toy_document_mutated toy_registry) ! 1) \<and>
   VerificationResult.error (traverse toy_ethers toy_document_mutated toy_registry) =
     Some (''Signature chain broken at signer: '' @ ''bob'')"
proof -
  have d: "toy_document_mutated = Some \<lparr>payload = Some toy_payload_mutated,
             signatures = Some [toy_sig0, toy_sig1]\<rparr>"
    by (simp add: toy_document_mutated_def)
  have "VerificationResult.error (traverse toy_ethers toy_document_mutated toy_registry) =
     Some (''Signature chain broken at signer: ''
           @ Signature.signerId ([toy_sig0, toy_sig1] ! 1))"
  proof (rule top_level_error_names_last_invalid [OF d])
    show "\<not> SignatureVerificationResult.isValid
       (signatureResults (traverse toy_ethers toy_document_mutated toy_registry) ! 1)"
      by (rule toy_mutated_results(1))
    show "\<forall>i. 1 < i \<and> i < length [toy_sig0, toy_sig1] \<longrightarrow>
        SignatureVerificationResult.isValid
          (signatureResults (traverse toy_ethers toy_document_mutated toy_registry) ! i)"
      by auto
  qed simp_all
  then show ?thesis
    using toy_mutated_results(1) by (simp add: toy_signer_ids)
qed

text \<open>
  The claim as it stands gives the message as "signature chain broken at signer: " in
  lower case. On the chain of alice and bob with the payload's content changed, bob's
  signature (index 1) is the invalid one of highest index, and the error is not that
  string followed by his id: the code's template starts with a capital S.
\<close>

theorem top_level_error_literal_counterexample:
  "\<not> SignatureVerificationResult.isValid
       (signatureResults (traverse toy_ethers toy_document_mutated toy_registry) ! 1) \<and>
   Signature.signerId toy_sig1 = ''bob'' \<and>
   VerificationResult.error (traverse toy_ethers toy_document_mutated toy_registry) \<noteq>
     Some (''signature chain broken at signer: '' @ ''bob'')"
  using toy_mutated_results(1) by (simp add: toy_mutated_results(3) toy_signer_ids)

section \<open>Overall validity\<close>

text \<open>
  C1, amended. \<open>traverse\<close> returns \<open>isValid = true\<close> if and only if the document has
  at least one signature, has a payload, and every per-signature result in
  \<open>signatureResults\<close> is valid. The top-level error is present when \<open>isValid\<close> is
  false and absent when it is true.
\<close>

theorem traverse_isValid_iff:
  "VerificationResult.isValid (traverse c document signerRegistry) =
     (has_signatures document \<and> has_payload document \<and>
      list_all SignatureVerificationResult.isValid
        (signatureResults (traverse c document signerRegistry))) \<and>
   (VerificationResult.isValid (traverse c document signerRegistry) =
      (VerificationResult.error (traverse c document signerRegistry) = None))"
proof (cases "has_signatures document \<and> has_payload document")
  case True
  then obtain d sigs p where *: "document = Some d" "signatures d = Some sigs" "sigs \<noteq> []"
    "payload d = Some p"
    by (auto elim: present_cases)
  have "VerificationResult.isValid (traverse c document signerRegistry) =
          list_all SignatureVerificationResult.isValid
            (signatureResults (traverse c document signerRegistry))"
    by (auto simp: traverse_present_isValid [OF *] traverse_present_results [OF *]
        list_all_iff)
  moreover have "VerificationResult.isValid (traverse c document signerRegistry) =
      (VerificationResult.error (traverse c document signerRegistry) = None)"
    by (simp add: traverse_present [OF *] traverse_loop_error_present)
  ultimately show ?thesis using True by simp
next
  case False
  then show ?thesis
    by (cases "has_signatures document")
       (simp_all add: traverse_absent no_signatures_def no_payload_def)
qed

theorem traverse_isValid_iff_witness:
  "VerificationResult.isValid (traverse toy_ethers toy_document toy_registry) \<and>
   list_all SignatureVerificationResult.isValid
     (signatureResults (traverse toy_ethers toy_document toy_registry)) \<and>
   VerificationResult.error (traverse toy_ethers toy_document toy_registry) = None \<and>
   \<not> VerificationResult.isValid
       (traverse toy_ethers toy_document_no_payload toy_registry) \<and>
   VerificationResult.error (traverse toy_ethers toy_document_no_payload toy_registry)
     \<noteq> None"
  using traverse_isValid_iff [of toy_ethers toy_document toy_registry]
    traverse_isValid_iff [of toy_ethers toy_document_no_payload toy_registry]
    toy_document_valid toy_no_payload_result(1)
  by simp

text \<open>
  The claim as it stands fails on a document with a signature and no payload (the
  repository's test "should handle documents with no payload"): every per-signature
  result is valid, there being none, and the document has a signature, yet \<open>isValid\<close>
  is false.
\<close>

theorem traverse_isValid_iff_counterexample:
  "\<not> (VerificationResult.isValid
         (traverse toy_ethers toy_document_no_payload toy_registry) \<longleftrightarrow>
       list_all SignatureVerificationResult.isValid
         (signatureResults (traverse toy_ethers toy_document_no_payload toy_registry)) \<and>
       has_signatures toy_document_no_payload)"
proof -
  have "has_signatures toy_document_no_payload"
    by (simp add: has_signatures_def toy_document_no_payload_def)
  then show ?thesis by (simp add: toy_no_payload_result)
qed

section \<open>Checks of one entry\<close>

text \<open>
  C7. When the registry has a non-empty address for the signer and the recomputed hash
  differs from the record's \<open>signedHash\<close>, the entry's result has
  \<open>hashChainValid = false\<close>, \<open>isValid = false\<close>, \<open>signatureValid = false\<close> and
  the error "Hash chain broken: expected E, got A" with the expected and the recorded
  hash. The signature check is not invoked: the result is the same whatever
  \<open>hashMessage\<close> and \<open>recoverAddress\<close> are.
\<close>

theorem hash_mismatch_short_circuits:
  assumes "signerRegistry (Signature.signerId sig) = Some a" and "a \<noteq> []"
    and "calculateExpectedHash c p previousSignatures \<noteq> signedHash sig"
  shows "verifySignatureAtIndex c p sig previousSignatures signerRegistry =
           \<lparr>SignatureVerificationResult.signerId = Signature.signerId sig,
            isValid = False,
            error = Some (''Hash chain broken: expected ''
                          @ calculateExpectedHash c p previousSignatures
                          @ '', got '' @ signedHash sig),
            hashChainValid = False, signatureValid = False\<rparr>
         \<and> verifySignatureAtIndex (c\<lparr>hashMessage := hm, recoverAddress := ra\<rparr>)
               p sig previousSignatures signerRegistry =
             verifySignatureAtIndex c p sig previousSignatures signerRegistry"
  using assms
  by (simp add: verifySignatureAtIndex_def falsy_def Let_def calculateExpectedHash_def
      createHash_def)

theorem hash_mismatch_short_circuits_witness:
  "toy_registry (Signature.signerId toy_sig0) = Some ''0xAA'' \<and>
   calculateExpectedHash toy_ethers toy_payload_mutated [] \<noteq> signedHash toy_sig0 \<and>
   verifySignatureAtIndex toy_ethers toy_payload_mutated toy_sig0 [] toy_registry =
     \<lparr>SignatureVerificationResult.signerId = ''alice'',
      isValid = False,
      error = Some (''Hash chain broken: expected ''
                    @ calculateExpectedHash toy_ethers toy_payload_mutated []
                    @ '', got '' @ signedHash toy_sig0),
      hashChainValid = False, signatureValid = False\<rparr>"
proof -
  have a: "toy_registry (Signature.signerId toy_sig0) = Some ''0xAA''"
    by (simp add: toy_signer_ids toy_registry_lookups)
  have b: "''0xAA'' \<noteq> []" by simp
  have c: "calculateExpectedHash toy_ethers toy_payload_mutated [] \<noteq> signedHash toy_sig0"
    using toy_mutation_changes_hashes(1) by (simp add: toy_sig0_def)
  show ?thesis
    using a c
      hash_mismatch_short_circuits [where signerRegistry = toy_registry and sig = toy_sig0
        and c = toy_ethers and p = toy_payload_mutated and previousSignatures = "[]",
        OF a b c]
    by (simp add: toy_signer_ids)
qed

text \<open>
  C10. A signer id that the registry maps to the empty string is treated as absent:
  whatever the library, the payload and the earlier signatures, the entry's result is
  invalid with the "not found in registry" error, and both \<open>hashChainValid\<close> and
  \<open>signatureValid\<close> are false although neither check ran.
\<close>

theorem empty_address_is_absent:
  assumes "signerRegistry (Signature.signerId sig) = Some []"
  shows "verifySignatureAtIndex c p sig previousSignatures signerRegistry =
           \<lparr>SignatureVerificationResult.signerId = Signature.signerId sig,
            isValid = False,
            error = Some (''Signer '' @ Signature.signerId sig @ '' not found in registry''),
            hashChainValid = False, signatureValid = False\<rparr>"
  using assms by (simp add: verifySignatureAtIndex_def falsy_def)

theorem empty_address_is_absent_witness:
  "toy_registry ''eve'' = Some [] \<and>
   verifySignatureAtIndex toy_ethers toy_payload (toy_sig0\<lparr>Signature.signerId := ''eve''\<rparr>)
       [] toy_registry =
     \<lparr>SignatureVerificationResult.signerId = ''eve'', isValid = False,
      error = Some ''Signer eve not found in registry'',
      hashChainValid = False, signatureValid = False\<rparr>"
proof -
  have h: "toy_registry (Signature.signerId (toy_sig0\<lparr>Signature.signerId := ''eve''\<rparr>))
             = Some []"
    by (simp add: toy_registry_lookups)
  show ?thesis
    using empty_address_is_absent [of toy_registry, OF h, of toy_ethers toy_payload "[]"]
    by (simp add: toy_registry_lookups)
qed

text \<open>
  C9. When \<open>recoverAddress\<close> throws for an entry whose signer is registered and whose
  hash check passed, that entry's result has \<open>signatureValid = false\<close> (with
  \<open>hashChainValid = true\<close> and the "Invalid cryptographic signature" error).
  \<open>traverse\<close> still returns a result with one entry per signature, and every other
  entry is the result of its own checks.
\<close>

theorem recovery_failure_is_local:
  assumes "document = Some d" and "signatures d = Some sigs" and "payload d = Some p"
    and "i < length sigs"
    and "signerRegistry (Signature.signerId (sigs ! i)) = Some a" and "a \<noteq> []"
    and "calculateExpectedHash c p (take i sigs) = signedHash (sigs ! i)"
    and "recoverAddress c (hashMessage c (toUtf8Bytes c (signedHash (sigs ! i))))
           (signature (sigs ! i)) = None"
  shows "signatureResults (traverse c document signerRegistry) ! i =
           \<lparr>SignatureVerificationResult.signerId = Signature.signerId (sigs ! i),
            isValid = False,
            error = Some (''Invalid cryptographic signature for ''
                          @ Signature.signerId (sigs ! i)),
            hashChainValid = True, signatureValid = False\<rparr> \<and>
         length (signatureResults (traverse c document signerRegistry)) = length sigs \<and>
         (\<forall>j<length sigs. j \<noteq> i \<longrightarrow>
            signatureResults (traverse c document signerRegistry) ! j =
              verifySignatureAtIndex c p (sigs ! j) (take j sigs) signerRegistry)"
proof -
  from assms(4) have ne: "sigs \<noteq> []" by auto
  note res = traverse_present_results [OF assms(1,2) ne assms(3), of c signerRegistry]
  have "verifySignatureAtIndex c p (sigs ! i) (take i sigs) signerRegistry =
           \<lparr>SignatureVerificationResult.signerId = Signature.signerId (sigs ! i),
            isValid = False,
            error = Some (''Invalid cryptographic signature for ''
                          @ Signature.signerId (sigs ! i)),
            hashChainValid = True, signatureValid = False\<rparr>"
    using assms(5-8)
    by (simp add: verifySignatureAtIndex_def verifySignature_def falsy_def Let_def)
  with assms(4) show ?thesis by (simp add: res)
qed

theorem recovery_failure_is_local_witness:
  "recoverAddress toy_ethers (hashMessage toy_ethers (toUtf8Bytes toy_ethers
       (signedHash toy_sig0))) ''0xZz'' = None \<and>
   signatureResults (traverse toy_ethers toy_document_corrupted toy_registry) ! 0 =
     \<lparr>SignatureVerificationResult.signerId = ''alice'', isValid = False,
      error = Some ''Invalid cryptographic signature for alice'',
      hashChainValid = True, signatureValid = False\<rparr> \<and>
   length (signatureResults (traverse toy_ethers toy_document_corrupted toy_registry)) = 2 \<and>
   signatureResults (traverse toy_ethers toy_document_corrupted toy_registry) ! 1 =
     verifySignatureAtIndex toy_ethers toy_payload toy_sig1
       [toy_sig0\<lparr>signature := ''0xZz''\<rparr>] toy_registry"
proof -
  let ?sigs = "[toy_sig0\<lparr>signature := ''0xZz''\<rparr>, toy_sig1]"
  have d: "toy_document_corrupted = Some \<lparr>payload = Some toy_payload,
             signatures = Some ?sigs\<rparr>"
    by (simp add: toy_document_corrupted_def)
  have a: "toy_registry (Signature.signerId (?sigs ! 0)) = Some ''0xAA''"
    by (simp add: toy_signer_ids toy_registry_lookups)
  have h: "calculateExpectedHash toy_ethers toy_payload (take 0 ?sigs) = signedHash (?sigs ! 0)"
    by (simp add: toy_sig0_def)
  have r: "recoverAddress toy_ethers (hashMessage toy_ethers (toUtf8Bytes toy_ethers
             (signedHash (?sigs ! 0)))) (signature (?sigs ! 0)) = None"
    using toy_corruption_fails(2) by simp
  have "signatureResults (traverse toy_ethers toy_document_corrupted toy_registry) ! 0 =
           \<lparr>SignatureVerificationResult.signerId = Signature.signerId (?sigs ! 0),
            isValid = False,
            error = Some (''Invalid cryptographic signature for ''
                          @ Signature.signerId (?sigs ! 0)),
            hashChainValid = True, signatureValid = False\<rparr> \<and>
         length (signatureResults (traverse toy_ethers toy_document_corrupted toy_registry))
           = length ?sigs \<and>
         (\<forall>j<length ?sigs. j \<noteq> 0 \<longrightarrow>
            signatureResults (traverse toy_ethers toy_document_corrupted toy_registry) ! j =
              verifySignatureAtIndex toy_ethers toy_payload (?sigs ! j) (take j ?sigs)
                toy_registry)"
    by (rule recovery_failure_is_local [where signerRegistry = toy_registry
          and sigs = ?sigs and i = 0 and c = toy_ethers and p = toy_payload,
          OF d _ _ _ a _ h r]) simp_all
  then show ?thesis
    using toy_corruption_fails(2)
    by (auto simp: All_less_Suc numeral_2_eq_2 toy_signer_ids)
qed

section \<open>Tampering\<close>

text \<open>
  C4, amended. Take a document that verifies as valid and replace its payload so that
  the expected hash changes at every chain position. Then every entry's hash check
  fails, the one at index 0 included, \<open>isValid\<close> is false, and the top-level error
  names the last signer of the chain (the first one the reverse traversal meets), not
  the first.
\<close>

theorem mutated_payload_breaks_every_hash:
  assumes valid: "VerificationResult.isValid
             (traverse c (Some \<lparr>payload = Some p, signatures = Some sigs\<rparr>) signerRegistry)"
    and changed: "\<forall>i<length sigs.
             calculateExpectedHash c p' (take i sigs) \<noteq> calculateExpectedHash c p (take i sigs)"
  shows "\<not> VerificationResult.isValid
             (traverse c (Some \<lparr>payload = Some p', signatures = Some sigs\<rparr>) signerRegistry) \<and>
         (\<forall>i<length sigs. \<not> hashChainValid
             (signatureResults
                (traverse c (Some \<lparr>payload = Some p', signatures = Some sigs\<rparr>) signerRegistry)
              ! i)) \<and>
         \<not> hashChainValid
             (signatureResults
                (traverse c (Some \<lparr>payload = Some p', signatures = Some sigs\<rparr>) signerRegistry)
              ! 0) \<and>
         VerificationResult.error
             (traverse c (Some \<lparr>payload = Some p', signatures = Some sigs\<rparr>) signerRegistry) =
           Some (''Signature chain broken at signer: '' @ Signature.signerId (last sigs))"
proof -
  let ?doc = "Some \<lparr>payload = Some p', signatures = Some sigs\<rparr>"
  note ne = valid_document_entries(1) [OF valid]
  note ok = valid_document_entries(2) [OF valid]
  have res: "signatureResults (traverse c ?doc signerRegistry) =
      map (\<lambda>i. verifySignatureAtIndex c p' (sigs ! i) (take i sigs) signerRegistry)
        [0..<length sigs]"
    using ne by (simp add: traverse_present_results [of ?doc _ sigs p'])
  have broken: "\<forall>i<length sigs. \<not> hashChainValid
      (verifySignatureAtIndex c p' (sigs ! i) (take i sigs) signerRegistry)"
    using ok changed by (simp add: verifySignatureAtIndex_hashChainValid)
  have invalid: "\<forall>i<length sigs. \<not> SignatureVerificationResult.isValid
      (verifySignatureAtIndex c p' (sigs ! i) (take i sigs) signerRegistry)"
    using ok changed by (simp add: verifySignatureAtIndex_isValid)
  have last: "length sigs - 1 < length sigs" using ne by simp
  have "\<not> VerificationResult.isValid (traverse c ?doc signerRegistry)"
    using ne invalid by (auto simp: traverse_present_isValid [of ?doc _ sigs p'])
  moreover have "\<forall>i<length sigs. \<not> hashChainValid
      (signatureResults (traverse c ?doc signerRegistry) ! i)"
    using broken by (simp add: res)
  moreover have "\<not> hashChainValid (signatureResults (traverse c ?doc signerRegistry) ! 0)"
  proof -
    from ne have "0 < length sigs" by simp
    with broken have "\<not> hashChainValid
        (verifySignatureAtIndex c p' (sigs ! 0) (take 0 sigs) signerRegistry)"
      by blast
    with ne show ?thesis by (simp add: res)
  qed
  moreover have "VerificationResult.error (traverse c ?doc signerRegistry) =
      Some (''Signature chain broken at signer: '' @ Signature.signerId (last sigs))"
  proof -
    have "VerificationResult.error (traverse c ?doc signerRegistry) =
        Some (''Signature chain broken at signer: ''
              @ Signature.signerId (sigs ! (length sigs - 1)))"
    proof (rule traverse_present_error [OF refl _ ne _ last])
      show "signatures \<lparr>payload = Some p', signatures = Some sigs\<rparr> = Some sigs" by simp
      show "payload \<lparr>payload = Some p', signatures = Some sigs\<rparr> = Some p'" by simp
      show "\<not> SignatureVerificationResult.isValid
          (verifySignatureAtIndex c p' (sigs ! (length sigs - 1))
             (take (length sigs - 1) sigs) signerRegistry)"
        using invalid last by blast
      show "\<forall>i. length sigs - 1 < i \<and> i < length sigs \<longrightarrow>
          SignatureVerificationResult.isValid
            (verifySignatureAtIndex c p' (sigs ! i) (take i sigs) signerRegistry)"
        by auto
    qed
    with ne show ?thesis by (simp add: last_conv_nth)
  qed
  ultimately show ?thesis by blast
qed

theorem mutated_payload_breaks_every_hash_witness:
  "VerificationResult.isValid (traverse toy_ethers toy_document toy_registry) \<and>
   calculateExpectedHash toy_ethers toy_payload_mutated []
     \<noteq> calculateExpectedHash toy_ethers toy_payload [] \<and>
   calculateExpectedHash toy_ethers toy_payload_mutated [toy_sig0]
     \<noteq> calculateExpectedHash toy_ethers toy_payload [toy_sig0] \<and>
   \<not> VerificationResult.isValid
       (traverse toy_ethers toy_document_mutated toy_registry) \<and>
   \<not> hashChainValid
       (signatureResults (traverse toy_ethers toy_document_mutated toy_registry) ! 0) \<and>
   \<not> hashChainValid
       (signatureResults (traverse toy_ethers toy_document_mutated toy_registry) ! 1) \<and>
   VerificationResult.error (traverse toy_ethers toy_document_mutated toy_registry) =
     Some (''Signature chain broken at signer: '' @ ''bob'')"
proof -
  let ?sigs = "[toy_sig0, toy_sig1]"
  have v: "VerificationResult.isValid
      (traverse toy_ethers (Some \<lparr>payload = Some toy_payload, signatures = Some ?sigs\<rparr>)
         toy_registry)"
    using toy_document_valid by (simp add: toy_document_def)
  have ch: "\<forall>i<length ?sigs.
      calculateExpectedHash toy_ethers toy_payload_mutated (take i ?sigs)
        \<noteq> calculateExpectedHash toy_ethers toy_payload (take i ?sigs)"
    using toy_mutation_changes_hashes by (simp add: All_less_Suc)
  show ?thesis
    using mutated_payload_breaks_every_hash [OF v ch] toy_document_valid
      toy_mutation_changes_hashes
    by (simp add: All_less_Suc toy_document_mutated_def toy_signer_ids)
qed

text \<open>
  The claim as it stands fails on the two-signature chain of alice and bob with the
  payload's content changed: the document verified before the change, the hash check at
  index 0 fails after it, but the top-level error names bob, the last signer, and does
  not mention alice, the first.
\<close>

theorem mutated_payload_error_counterexample:
  "VerificationResult.isValid (traverse toy_ethers toy_document toy_registry) \<and>
   \<not> hashChainValid
       (signatureResults (traverse toy_ethers toy_document_mutated toy_registry) ! 0) \<and>
   Signature.signerId toy_sig0 = ''alice'' \<and>
   VerificationResult.error (traverse toy_ethers toy_document_mutated toy_registry) =
     Some ''Signature chain broken at signer: bob'' \<and>
   \<not> sublist ''alice'' ''Signature chain broken at signer: bob''"
proof -
  have "\<not> sublist ''alice'' ''Signature chain broken at signer: bob''"
    by code_simp
  then show ?thesis
    by (simp add: toy_document_valid toy_mutated_results toy_signer_ids)
qed

text \<open>
  C6, amended. Take a document that verifies as valid and replace the signature bytes of
  record \<open>k\<close> by bytes that do not verify, leaving its \<open>signedHash\<close>. The result
  list still has one entry per signature. Entry \<open>k\<close> has \<open>hashChainValid = true\<close>
  and \<open>signatureValid = false\<close>. The entries before \<open>k\<close> are those of the valid
  document. An entry after \<open>k\<close> is checked against a chain prefix that contains the
  corrupted record: where that changes the expected hash, its hash check fails and its
  signature check is skipped.
\<close>

theorem corrupted_signature_bytes:
  assumes valid: "VerificationResult.isValid
             (traverse c (Some \<lparr>payload = Some p, signatures = Some sigs\<rparr>) signerRegistry)"
    and k: "k < length sigs"
    and corrupted: "\<not> verifySignature c (signedHash (sigs ! k)) b
             (case signerRegistry (Signature.signerId (sigs ! k)) of
                Some a \<Rightarrow> a | None \<Rightarrow> [])"
  shows "length (signatureResults
            (traverse c (Some \<lparr>payload = Some p,
               signatures = Some (sigs[k := (sigs ! k)\<lparr>signature := b\<rparr>])\<rparr>) signerRegistry))
           = length sigs \<and>
         hashChainValid (signatureResults
            (traverse c (Some \<lparr>payload = Some p,
               signatures = Some (sigs[k := (sigs ! k)\<lparr>signature := b\<rparr>])\<rparr>) signerRegistry)
            ! k) \<and>
         \<not> signatureValid (signatureResults
            (traverse c (Some \<lparr>payload = Some p,
               signatures = Some (sigs[k := (sigs ! k)\<lparr>signature := b\<rparr>])\<rparr>) signerRegistry)
            ! k) \<and>
         (\<forall>i<k. signatureResults
            (traverse c (Some \<lparr>payload = Some p,
               signatures = Some (sigs[k := (sigs ! k)\<lparr>signature := b\<rparr>])\<rparr>) signerRegistry)
            ! i =
            signatureResults
              (traverse c (Some \<lparr>payload = Some p, signatures = Some sigs\<rparr>) signerRegistry)
            ! i) \<and>
         (\<forall>j. k < j \<and> j < length sigs \<and>
              calculateExpectedHash c p (take j (sigs[k := (sigs ! k)\<lparr>signature := b\<rparr>]))
                \<noteq> calculateExpectedHash c p (take j sigs) \<longrightarrow>
            \<not> hashChainValid (signatureResults
              (traverse c (Some \<lparr>payload = Some p,
                 signatures = Some (sigs[k := (sigs ! k)\<lparr>signature := b\<rparr>])\<rparr>) signerRegistry)
              ! j) \<and>
            \<not> signatureValid (signatureResults
              (traverse c (Some \<lparr>payload = Some p,
                 signatures = Some (sigs[k := (sigs ! k)\<lparr>signature := b\<rparr>])\<rparr>) signerRegistry)
              ! j))"
proof -
  let ?sigs' = "sigs[k := (sigs ! k)\<lparr>signature := b\<rparr>]"
  let ?doc = "Some \<lparr>payload = Some p, signatures = Some sigs\<rparr>"
  let ?doc' = "Some \<lparr>payload = Some p, signatures = Some ?sigs'\<rparr>"
  note ne = valid_document_entries(1) [OF valid]
  note ok = valid_document_entries(2) [OF valid]
  have res: "signatureResults (traverse c ?doc signerRegistry) =
      map (\<lambda>i. verifySignatureAtIndex c p (sigs ! i) (take i sigs) signerRegistry)
        [0..<length sigs]"
    using ne by (simp add: traverse_present_results [of ?doc _ sigs p])
  have res': "signatureResults (traverse c ?doc' signerRegistry) =
      map (\<lambda>i. verifySignatureAtIndex c p (?sigs' ! i) (take i ?sigs') signerRegistry)
        [0..<length sigs]"
    using ne by (simp add: traverse_present_results [of ?doc' _ ?sigs' p])
  have len: "length (signatureResults (traverse c ?doc' signerRegistry)) = length sigs"
    by (simp add: res')
  have at_k: "hashChainValid (signatureResults (traverse c ?doc' signerRegistry) ! k) \<and>
      \<not> signatureValid (signatureResults (traverse c ?doc' signerRegistry) ! k)"
    using k ok corrupted
    by (simp add: res' verifySignatureAtIndex_hashChainValid
        verifySignatureAtIndex_signatureValid)
  have before: "\<forall>i<k. signatureResults (traverse c ?doc' signerRegistry) ! i =
      signatureResults (traverse c ?doc signerRegistry) ! i"
    using k by (simp add: res res')
  have after: "\<forall>j. k < j \<and> j < length sigs \<and>
        calculateExpectedHash c p (take j ?sigs') \<noteq> calculateExpectedHash c p (take j sigs) \<longrightarrow>
      \<not> hashChainValid (signatureResults (traverse c ?doc' signerRegistry) ! j) \<and>
      \<not> signatureValid (signatureResults (traverse c ?doc' signerRegistry) ! j)"
    using ok
    by (auto simp: res' verifySignatureAtIndex_hashChainValid
        verifySignatureAtIndex_signatureValid)
  from len at_k before after show ?thesis by blast
qed

theorem corrupted_signature_bytes_witness:
  "VerificationResult.isValid (traverse toy_ethers toy_document toy_registry) \<and>
   \<not> verifySignature toy_ethers (signedHash toy_sig0) ''0xZz'' ''0xAA'' \<and>
   length (signatureResults (traverse toy_ethers toy_document_corrupted toy_registry)) = 2 \<and>
   hashChainValid
     (signatureResults (traverse toy_ethers toy_document_corrupted toy_registry) ! 0) \<and>
   \<not> signatureValid
     (signatureResults (traverse toy_ethers toy_document_corrupted toy_registry) ! 0) \<and>
   \<not> hashChainValid
     (signatureResults (traverse toy_ethers toy_document_corrupted toy_registry) ! 1) \<and>
   \<not> signatureValid
     (signatureResults (traverse toy_ethers toy_document_corrupted toy_registry) ! 1)"
proof -
  let ?sigs = "[toy_sig0, toy_sig1]"
  have v: "VerificationResult.isValid
      (traverse toy_ethers (Some \<lparr>payload = Some toy_payload, signatures = Some ?sigs\<rparr>)
         toy_registry)"
    using toy_document_valid by (simp add: toy_document_def)
  have k: "0 < length ?sigs" by simp
  have b: "\<not> verifySignature toy_ethers (signedHash (?sigs ! 0)) ''0xZz''
      (case toy_registry (Signature.signerId (?sigs ! 0)) of Some a \<Rightarrow> a | None \<Rightarrow> [])"
    using toy_corruption_fails(1) by (simp add: toy_signer_ids toy_registry_lookups)
  have e: "?sigs[0 := (?sigs ! 0)\<lparr>signature := ''0xZz''\<rparr>]
             = [toy_sig0\<lparr>signature := ''0xZz''\<rparr>, toy_sig1]"
    by simp
  show ?thesis
    using corrupted_signature_bytes [OF v k b] toy_document_valid toy_corruption_fails(1)
      toy_corruption_changes_hash
    unfolding e
    by (simp add: toy_document_corrupted_def)
qed

text \<open>
  The claim as it stands fails on the same chain with the signature bytes of alice's
  record (index 0) replaced and its \<open>signedHash\<close> kept: bob's entry (index 1) is not
  the one that was corrupted, yet its hash check, which passed on the valid document,
  now fails, so its result is not the one of the valid document.
\<close>

theorem corrupted_signature_bytes_counterexample:
  "VerificationResult.isValid (traverse toy_ethers toy_document toy_registry) \<and>
   signedHash (toy_sig0\<lparr>signature := ''0xZz''\<rparr>) = signedHash toy_sig0 \<and>
   hashChainValid (signatureResults (traverse toy_ethers toy_document toy_registry) ! 1) \<and>
   \<not> hashChainValid
     (signatureResults (traverse toy_ethers toy_document_corrupted toy_registry) ! 1) \<and>
   signatureResults (traverse toy_ethers toy_document_corrupted toy_registry) ! 1
     \<noteq> signatureResults (traverse toy_ethers toy_document toy_registry) ! 1"
proof -
  have "signatureResults (traverse toy_ethers toy_document_corrupted toy_registry) ! 1
     \<noteq> signatureResults (traverse toy_ethers toy_document toy_registry) ! 1"
    using toy_corrupted_results by metis
  then show ?thesis
    using toy_document_valid toy_corrupted_results by simp
qed

text \<open>
  C5. \<open>serializePayload\<close> passes the sorted top-level keys to \<open>JSON.stringify\<close> as the
  replacer array, and that array filters the keys of nested objects too. The field
  \<open>author\<close> of the object \<open>metadata\<close> is not a top-level key, so it is left out:
  whatever its value, the serialization ends in \<open>"metadata":{}\<close>, and the expected
  hash is the same for every author.
\<close>

theorem nested_field_not_hashed:
  \<open>serializePayload (payload_with_author a) =
     ''{"content":"test content","documentId":"test-123","metadata":{}}'' \<and>
   calculateExpectedHash c (payload_with_author a) previousSignatures =
     calculateExpectedHash c (payload_with_author b) previousSignatures\<close>
proof -
  have s: \<open>serializePayload (payload_with_author x) =
     ''{"content":"test content","documentId":"test-123","metadata":{}}''\<close> for x
    by (simp add: serializePayload_def payload_with_author_def JSON_stringify_def
        PropertyList_def Object_keys_def QuoteJSONString_def QuoteJSONChar_def)
  show ?thesis by (simp add: s calculateExpectedHash_def)
qed

end
